theory Spec2Isabelle
  imports Main "HOL-Library.Option_ord" "HOL-Library.Multiset"
begin

section \<open>The message-store service of backend/main.py\<close>

text \<open>
  The service is one Python module: a configuration read from the environment, three
  tables (users, conversations, messages), a login route that issues a signed session
  token, a guard for protected routes, and two routes that read and append the messages
  of a conversation. The module is embedded function by function. The database is an
  explicit state that every route takes and returns; the clock is an argument
  (\<open>now\<close>), since \<^verbatim>\<open>datetime.utcnow()\<close> is read from the environment; an
  \<^verbatim>\<open>HTTPException\<close> is the left summand of the result.

  Three libraries are called and are not part of the module. Their behaviour is modelled
  as far as the routes depend on it:
  \<^item> the password context (\<^verbatim>\<open>pwd_context.verify\<close>, \<^verbatim>\<open>pwd_context.hash\<close>) is a
    parameter of the functions that call it;
  \<^item> the token library (\<^verbatim>\<open>jwt.encode\<close>, \<^verbatim>\<open>jwt.decode\<close>) is modelled structurally,
    with the keyed signature function as a parameter \<open>sign\<close>;
  \<^item> the storage engine is modelled by tables that are lists of rows in row-id order.
    Storage operations are taken to succeed, and the engine stores integers and strings
    as it is given them.
\<close>

subsection \<open>Time\<close>

text \<open>
  A \<^verbatim>\<open>datetime\<close> is a number of microseconds since the epoch, a token's expiry
  (a NumericDate) a number of whole seconds. \<^verbatim>\<open>timegm(d.utctimetuple())\<close>, which the
  token library applies to a datetime, drops the microseconds.
\<close>

type_synonym datetime = int
type_synonym numeric_date = int

definition timedelta_hours :: "int \<Rightarrow> int" where
  "timedelta_hours h = h * 3600000000"

definition timegm :: "datetime \<Rightarrow> numeric_date" where
  "timegm d = d div 1000000"

subsection \<open>Configuration\<close>

text \<open>
  The environment variables the module reads. \<open>env_ACCESS_TOKEN_EXPIRE_HOURS\<close> is the
  variable after \<^verbatim>\<open>int(...)\<close> has read its text; the other variables are texts.
\<close>

record environ =
  env_SECRET_KEY :: "string option"
  env_JWT_ALGORITHM :: "string option"
  env_ACCESS_TOKEN_EXPIRE_HOURS :: "int option"
  env_ADMIN_USERNAME :: "string option"
  env_ADMIN_PASSWORD :: "string option"
  env_COOKIE_SECURE :: "string option"
  env_COOKIE_SAMESITE :: "string option"

record config =
  SECRET_KEY :: string
  ALGORITHM :: string
  ACCESS_TOKEN_EXPIRE_HOURS :: int
  ADMIN_USERNAME :: "string option"
  ADMIN_PASSWORD :: "string option"
  COOKIE_SECURE :: bool
  COOKIE_SAMESITE :: string

datatype startup_error = RuntimeError string

definition getenv :: "string option \<Rightarrow> 'a \<Rightarrow> (string \<Rightarrow> 'a) \<Rightarrow> 'a" where
  "getenv v dflt conv = (case v of None \<Rightarrow> dflt | Some s \<Rightarrow> conv s)"

definition lower_char :: "char \<Rightarrow> char" where
  "lower_char c =
     (let n = (of_char c :: nat) in if 65 \<le> n \<and> n \<le> 90 then char_of (n + 32) else c)"

definition lower :: "string \<Rightarrow> string" where
  "lower s = map lower_char s"

text \<open>
  Lines 27 to 38 of the module. \<^verbatim>\<open>if not SECRET_KEY\<close> holds for an unset and for an
  empty variable.
\<close>

definition load_config :: "environ \<Rightarrow> startup_error + config" where
  "load_config env =
     (if env_SECRET_KEY env = None \<or> env_SECRET_KEY env = Some []
      then Inl (RuntimeError ''SECRET_KEY must be set in .env'')
      else Inr \<lparr>
        SECRET_KEY = getenv (env_SECRET_KEY env) [] (\<lambda>s. s),
        ALGORITHM = getenv (env_JWT_ALGORITHM env) ''HS256'' (\<lambda>s. s),
        ACCESS_TOKEN_EXPIRE_HOURS =
          (case env_ACCESS_TOKEN_EXPIRE_HOURS env of None \<Rightarrow> 1 | Some h \<Rightarrow> h),
        ADMIN_USERNAME = env_ADMIN_USERNAME env,
        ADMIN_PASSWORD = env_ADMIN_PASSWORD env,
        COOKIE_SECURE = (lower (getenv (env_COOKIE_SECURE env) ''true'' (\<lambda>s. s)) = ''true''),
        COOKIE_SAMESITE = getenv (env_COOKIE_SAMESITE env) ''lax'' (\<lambda>s. s)\<rparr>)"

subsection \<open>Tables\<close>

text \<open>
  The three mapped classes. The column \<^verbatim>\<open>id\<close> is named \<open>user_id\<close>, \<open>conv_id\<close> and
  \<open>msg_id\<close>. A \<open>Message\<close> object has no id and no creation time until it is inserted,
  so both are optional. The column \<^verbatim>\<open>role\<close> is declared \<^verbatim>\<open>String(20)\<close>; the
  declared length is \<open>role_length\<close>, and nothing in the module or in the engine
  compares a role with it.
\<close>

record User =
  user_id :: int
  username :: string
  password_hash :: string

record Conversation =
  conv_id :: int

record Message =
  msg_id :: "int option"
  conversation_id :: int
  role :: string
  content :: string
  created_at :: "datetime option"

definition role_length :: nat where
  "role_length = 20"

record database =
  users :: "User list"
  conversations :: "Conversation list"
  messages :: "Message list"

definition empty_database :: database where
  "empty_database = \<lparr>users = [], conversations = [], messages = []\<rparr>"

text \<open>
  An integer primary key left unset is given the largest row id of the table plus one,
  and 1 in an empty table.
\<close>

definition next_rowid :: "int list \<Rightarrow> int" where
  "next_rowid ids = (case ids of [] \<Rightarrow> 1 | i # rest \<Rightarrow> fold max rest i + 1)"

text \<open>\<^verbatim>\<open>db.add(Conversation(id=...)); db.commit()\<close>\<close>

definition add_conversation :: "Conversation \<Rightarrow> database \<Rightarrow> database" where
  "add_conversation c db = db\<lparr>conversations := conversations db @ [c]\<rparr>"

text \<open>
  \<^verbatim>\<open>db.add(msg); db.commit(); db.refresh(msg)\<close> for a new message: the row gets the next
  row id, the column default \<^verbatim>\<open>datetime.utcnow\<close> fills a creation time that is not
  set, and the refreshed object is the stored row.
\<close>

definition add_message :: "datetime \<Rightarrow> Message \<Rightarrow> database \<Rightarrow> Message \<times> database" where
  "add_message now m db =
     (let row = m\<lparr>
            msg_id := Some (next_rowid (List.map_filter msg_id (messages db))),
            created_at := (case created_at m of None \<Rightarrow> Some now | Some t \<Rightarrow> Some t)\<rparr>
      in (row, db\<lparr>messages := messages db @ [row]\<rparr>))"

text \<open>\<^verbatim>\<open>db.add(User(...)); db.commit()\<close>\<close>

definition add_user :: "string \<Rightarrow> string \<Rightarrow> database \<Rightarrow> database" where
  "add_user name h db =
     db\<lparr>users := users db @
       [\<lparr>user_id = next_rowid (map user_id (users db)), username = name, password_hash = h\<rparr>]\<rparr>"

text \<open>
  \<^verbatim>\<open>db.query(Message).filter_by(conversation_id=...).order_by(asc(Message.created_at)).all()\<close>:
  the engine scans the table in row-id order, keeps the rows of the conversation and
  sorts them by the one key the query names; its sorter leaves rows with equal keys in
  scan order. A creation time that is null sorts first.
\<close>

definition query_messages :: "int \<Rightarrow> database \<Rightarrow> Message list" where
  "query_messages cid db =
     sort_key created_at (filter (\<lambda>m. conversation_id m = cid) (messages db))"

subsection \<open>Session tokens\<close>

text \<open>
  The claims the module hands to \<^verbatim>\<open>jwt.encode\<close> (the expiry a datetime) and the payload
  a token carries (the expiry a NumericDate). The text of a cookie is either the compact
  serialisation of a signed token or any other text; no token serialises to the empty
  text.
\<close>

record claims =
  sub :: string
  exp :: datetime

record payload =
  payload_sub :: string
  payload_exp :: numeric_date

record jws =
  jws_alg :: string
  jws_payload :: payload
  jws_signature :: string

datatype token = Compact jws | Opaque string

text \<open>
  The library's errors. \<^verbatim>\<open>ExpiredSignatureError\<close> and \<^verbatim>\<open>JWTClaimsError\<close> are
  subclasses of \<^verbatim>\<open>JWTError\<close>, so \<^verbatim>\<open>except JWTError\<close> catches all three.
\<close>

datatype jose_error = JWTError | ExpiredSignatureError | JWTClaimsError

type_synonym signer = "string \<Rightarrow> string \<Rightarrow> payload \<Rightarrow> string"

text \<open>
  \<^verbatim>\<open>jwt.encode(claims, key, algorithm=...)\<close>: a datetime expiry becomes a NumericDate,
  and the token is signed over its header and payload with the key.
\<close>

definition jwt_encode :: "signer \<Rightarrow> claims \<Rightarrow> string \<Rightarrow> string \<Rightarrow> token" where
  "jwt_encode sign c key algorithm =
     (let p = \<lparr>payload_sub = sub c, payload_exp = timegm (exp c)\<rparr>
      in Compact \<lparr>jws_alg = algorithm, jws_payload = p, jws_signature = sign key algorithm p\<rparr>)"

text \<open>
  \<^verbatim>\<open>jwt.decode(token, key, algorithms=[...])\<close> at time \<open>now\<close>: the token is parsed, its
  algorithm must be one of those allowed, its signature must be the one the key gives,
  and its expiry must not lie before the current second.
\<close>

definition jwt_decode ::
  "signer \<Rightarrow> datetime \<Rightarrow> token \<Rightarrow> string \<Rightarrow> string list \<Rightarrow> jose_error + payload" where
  "jwt_decode sign now t key algorithms =
     (case t of
        Opaque s \<Rightarrow> Inl JWTError
      | Compact j \<Rightarrow>
          if jws_alg j \<notin> set algorithms then Inl JWTError
          else if jws_signature j \<noteq> sign key (jws_alg j) (jws_payload j) then Inl JWTError
          else if payload_exp (jws_payload j) < timegm now then Inl ExpiredSignatureError
          else Inr (jws_payload j))"

subsection \<open>Requests and responses\<close>

record MessageCreate =
  mc_role :: string
  mc_content :: string

record LoginRequest =
  lr_username :: string
  lr_password :: string

datatype http_error = HTTPException int

record cookie =
  cookie_key :: string
  cookie_value :: token
  cookie_httponly :: bool
  cookie_samesite :: string
  cookie_secure :: bool
  cookie_path :: string

text \<open>The response object a route is handed: the cookies set on it so far.\<close>

record Response =
  cookies :: "cookie list"

definition set_cookie :: "cookie \<Rightarrow> Response \<Rightarrow> Response" where
  "set_cookie c r = r\<lparr>cookies := cookies r @ [c]\<rparr>"

text \<open>The dictionaries the two message routes return.\<close>

record message_item =
  item_id :: "int option"
  item_role :: string
  item_content :: string
  item_created_at :: "datetime option"

record message_created =
  created_id :: "int option"
  created_conversation_id :: int
  created_role :: string
  created_content :: string
  created_created_at :: "datetime option"

subsection \<open>Startup\<close>

text \<open>
  The startup hook, after the tables exist. \<open>hash\<close> is \<^verbatim>\<open>pwd_context.hash\<close> with the
  salt it draws. \<^verbatim>\<open>not ADMIN_USERNAME\<close> holds for an unset and for an empty variable.
\<close>

definition unset :: "string option \<Rightarrow> bool" where
  "unset v = (v = None \<or> v = Some [])"

definition startup :: "(string \<Rightarrow> string) \<Rightarrow> config \<Rightarrow> database \<Rightarrow> database" where
  "startup hash cfg db =
     (if unset (ADMIN_USERNAME cfg) \<or> unset (ADMIN_PASSWORD cfg) then db
      else case (ADMIN_USERNAME cfg, ADMIN_PASSWORD cfg) of
        (Some name, Some pw) \<Rightarrow>
          (if find (\<lambda>u. username u = name) (users db) = None
           then add_user name (hash pw) db else db)
      | _ \<Rightarrow> db)"

subsection \<open>Authentication\<close>

text \<open>
  \<^verbatim>\<open>require_login\<close>: \<^verbatim>\<open>not session\<close> holds for an absent cookie and for an empty one.
  The decoded payload is discarded.
\<close>

definition require_login ::
  "signer \<Rightarrow> config \<Rightarrow> datetime \<Rightarrow> token option \<Rightarrow> http_error + unit" where
  "require_login sign cfg now session =
     (case session of
        None \<Rightarrow> Inl (HTTPException 401)
      | Some t \<Rightarrow>
          if t = Opaque [] then Inl (HTTPException 401)
          else (case jwt_decode sign now t (SECRET_KEY cfg) [ALGORITHM cfg] of
                  Inl e \<Rightarrow> Inl (HTTPException 401)
                | Inr p \<Rightarrow> Inr ()))"

subsection \<open>Routes\<close>

text \<open>
  \<^verbatim>\<open>POST /login\<close>. The route returns its result and the response object; an exception
  leaves the response as it was handed in.
\<close>

definition login ::
  "signer \<Rightarrow> (string \<Rightarrow> string \<Rightarrow> bool) \<Rightarrow> config \<Rightarrow> datetime \<Rightarrow>
   LoginRequest \<Rightarrow> Response \<Rightarrow> database \<Rightarrow> (http_error + (string \<times> string) list) \<times> Response" where
  "login sign verify cfg now data response db =
     (case find (\<lambda>u. username u = lr_username data) (users db) of
        None \<Rightarrow> (Inl (HTTPException 401), response)
      | Some user \<Rightarrow>
          if \<not> verify (lr_password data) (password_hash user)
          then (Inl (HTTPException 401), response)
          else
            (let tok = jwt_encode sign
                   \<lparr>sub = username user,
                    exp = now + timedelta_hours (ACCESS_TOKEN_EXPIRE_HOURS cfg)\<rparr>
                   (SECRET_KEY cfg) (ALGORITHM cfg)
             in (Inr [(''status'', ''ok'')],
                 set_cookie
                   \<lparr>cookie_key = ''session'', cookie_value = tok, cookie_httponly = True,
                    cookie_samesite = COOKIE_SAMESITE cfg, cookie_secure = COOKIE_SECURE cfg,
                    cookie_path = ''/''\<rparr>
                   response)))"

text \<open>The body of \<^verbatim>\<open>GET /conversations/{conversation_id}/messages\<close>.\<close>

definition message_item_of :: "Message \<Rightarrow> message_item" where
  "message_item_of m =
     \<lparr>item_id = msg_id m, item_role = role m, item_content = content m,
      item_created_at = created_at m\<rparr>"

definition list_messages :: "int \<Rightarrow> database \<Rightarrow> message_item list" where
  "list_messages cid db = map message_item_of (query_messages cid db)"

text \<open>The route: the dependency \<^verbatim>\<open>require_login\<close> runs first, then the body.\<close>

definition get_messages ::
  "signer \<Rightarrow> config \<Rightarrow> datetime \<Rightarrow> token option \<Rightarrow> int \<Rightarrow> database \<Rightarrow>
   http_error + message_item list" where
  "get_messages sign cfg now session cid db =
     (case require_login sign cfg now session of
        Inl e \<Rightarrow> Inl e
      | Inr _ \<Rightarrow> Inr (list_messages cid db))"

text \<open>\<^verbatim>\<open>POST /conversations/{conversation_id}/messages\<close>, a route without a guard.\<close>

definition post_message ::
  "datetime \<Rightarrow> int \<Rightarrow> MessageCreate \<Rightarrow> database \<Rightarrow> message_created \<times> database" where
  "post_message now cid message db =
     (let convo = find (\<lambda>c. conv_id c = cid) (conversations db);
          db1 = (if convo = None then add_conversation \<lparr>conv_id = cid\<rparr> db else db);
          msg = \<lparr>msg_id = None, conversation_id = cid, role = mc_role message,
                 content = mc_content message, created_at = None\<rparr>;
          (msg', db2) = add_message now msg db1
      in (\<lparr>created_id = msg_id msg', created_conversation_id = conversation_id msg',
           created_role = role msg', created_content = content msg',
           created_created_at = created_at msg'\<rparr>, db2))"

subsection \<open>Stored states\<close>

text \<open>
  The row \<^verbatim>\<open>post_message\<close> stores: the message of the request with the next row id
  and the time of the insert.
\<close>

definition stored_message :: "datetime \<Rightarrow> int \<Rightarrow> MessageCreate \<Rightarrow> database \<Rightarrow> Message" where
  "stored_message now cid message db =
     \<lparr>msg_id = Some (next_rowid (List.map_filter msg_id (messages db))),
      conversation_id = cid, role = mc_role message, content = mc_content message,
      created_at = Some now\<rparr>"


definition references_exist :: "database \<Rightarrow> bool" where
  "references_exist db =
     (\<forall>m \<in> set (messages db). conversation_id m \<in> conv_id ` set (conversations db))"


subsection \<open>A concrete deployment\<close>

text \<open>
  An environment that sets the secret and the admin account and leaves the rest to the
  defaults, with stand-ins for the signature and the password hash. The theorems below
  hold for every signer and every password context; the stand-ins serve to run the
  routes on concrete requests.
\<close>

definition example_sign :: signer where
  "example_sign key alg p = key @ alg @ payload_sub p"

definition example_hash :: "string \<Rightarrow> string" where
  "example_hash pw = ''hash:'' @ pw"

definition example_verify :: "string \<Rightarrow> string \<Rightarrow> bool" where
  "example_verify pw h = (h = example_hash pw)"

definition example_env :: environ where
  "example_env =
     \<lparr>env_SECRET_KEY = Some ''k'', env_JWT_ALGORITHM = None,
      env_ACCESS_TOKEN_EXPIRE_HOURS = None, env_ADMIN_USERNAME = Some ''admin'',
      env_ADMIN_PASSWORD = Some ''secret'', env_COOKIE_SECURE = None,
      env_COOKIE_SAMESITE = None\<rparr>"

definition example_config :: config where
  "example_config =
     \<lparr>SECRET_KEY = ''k'', ALGORITHM = ''HS256'', ACCESS_TOKEN_EXPIRE_HOURS = 1,
      ADMIN_USERNAME = Some ''admin'', ADMIN_PASSWORD = Some ''secret'',
      COOKIE_SECURE = True, COOKIE_SAMESITE = ''lax''\<rparr>"

definition example_database :: database where
  "example_database = startup example_hash example_config empty_database"

definition example_token :: "string \<Rightarrow> token" where
  "example_token name =
     jwt_encode example_sign \<lparr>sub = name, exp = timedelta_hours 1\<rparr> ''k'' ''HS256''"

definition example_message :: MessageCreate where
  "example_message = \<lparr>mc_role = ''user'', mc_content = ''hi''\<rparr>"

text \<open>
  Three messages appended to conversation 42, the second and the third within the same
  clock reading and the first with a later one.
\<close>

definition example_ledger :: database where
  "example_ledger =
     snd (post_message 5 42 example_message
       (snd (post_message 5 42 example_message
         (snd (post_message 7 42 example_message example_database)))))"

section \<open>Properties\<close>

subsection \<open>What a route stores\<close>

lemma messages_add_conversation: "messages (add_conversation c db) = messages db"
  by (simp add: add_conversation_def)

lemma messages_post_message:
  "messages (snd (post_message now cid message db)) =
     messages db @ [stored_message now cid message db]"
  by (simp add: post_message_def add_message_def stored_message_def Let_def
      messages_add_conversation)

lemma users_post_message: "users (snd (post_message now cid message db)) = users db"
  by (simp add: post_message_def add_message_def Let_def add_conversation_def)

lemma conversations_post_message:
  "conversations (snd (post_message now cid message db)) =
     (if find (\<lambda>c. conv_id c = cid) (conversations db) = None
      then conversations db @ [\<lparr>conv_id = cid\<rparr>] else conversations db)"
  by (simp add: post_message_def add_message_def Let_def add_conversation_def)

lemma conversations_post_message_fresh:
  "cid \<notin> conv_id ` set (conversations db) \<Longrightarrow>
   conversations (snd (post_message now cid message db)) = conversations db @ [\<lparr>conv_id = cid\<rparr>]"
  by (auto simp: conversations_post_message find_None_iff)

lemma conversations_post_message_known:
  "cid \<in> conv_id ` set (conversations db) \<Longrightarrow>
   conversations (snd (post_message now cid message db)) = conversations db"
  by (auto simp: conversations_post_message find_None_iff)


subsection \<open>Row ids\<close>




subsection \<open>The stored states are kept\<close>



lemma references_exist_no_messages: "messages db = [] \<Longrightarrow> references_exist db"
  by (simp add: references_exist_def)

lemma references_exist_post_message:
  assumes "references_exist db"
  shows "references_exist (snd (post_message now cid message db))"
  using assms
  by (auto simp: references_exist_def messages_post_message conversations_post_message
      stored_message_def find_None_iff)

subsection \<open>A stable sort of rows in id order\<close>



subsection \<open>Listings\<close>

lemma get_messages_authenticated:
  "require_login sign cfg t session = Inr () \<Longrightarrow>
   get_messages sign cfg t session cid db = Inr (list_messages cid db)"
  by (simp add: get_messages_def)




lemma list_messages_post_other:
  "cid \<noteq> cid' \<Longrightarrow>
   list_messages cid' (snd (post_message now cid message db)) = list_messages cid' db"
  by (simp add: list_messages_def query_messages_def messages_post_message stored_message_def)


subsection \<open>The concrete deployment, evaluated\<close>

lemma lower_true: "lower ''true'' = ''true''"
  by (simp add: lower_def lower_char_def)

lemma load_example_env: "load_config example_env = Inr example_config"
  by (simp add: load_config_def example_env_def example_config_def getenv_def lower_true)

lemma users_example_database:
  "users example_database =
     [\<lparr>user_id = 1, username = ''admin'', password_hash = ''hash:secret''\<rparr>]"
  by (simp add: example_database_def startup_def example_config_def unset_def add_user_def
      empty_database_def next_rowid_def example_hash_def)

lemma messages_example_database: "messages example_database = []"
  by (simp add: example_database_def startup_def example_config_def unset_def add_user_def
      empty_database_def)

lemma conversations_example_database: "conversations example_database = []"
  by (simp add: example_database_def startup_def example_config_def unset_def add_user_def
      empty_database_def)

lemma example_token_eq:
  "example_token name =
     Compact \<lparr>jws_alg = ''HS256'',
       jws_payload = \<lparr>payload_sub = name, payload_exp = 3600\<rparr>,
       jws_signature = ''kHS256'' @ name\<rparr>"
  by (simp add: example_token_def jwt_encode_def example_sign_def timegm_def timedelta_hours_def)

lemma example_token_accepted:
  "require_login example_sign example_config 1000000 (Some (example_token name)) = Inr ()"
  by (simp add: example_token_eq require_login_def jwt_decode_def example_config_def
      example_sign_def timegm_def)

lemma messages_example_ledger:
  "messages example_ledger =
     [\<lparr>msg_id = Some 1, conversation_id = 42, role = ''user'', content = ''hi'',
        created_at = Some 7\<rparr>,
      \<lparr>msg_id = Some 2, conversation_id = 42, role = ''user'', content = ''hi'',
        created_at = Some 5\<rparr>,
      \<lparr>msg_id = Some 3, conversation_id = 42, role = ''user'', content = ''hi'',
        created_at = Some 5\<rparr>]"
  by (simp add: example_ledger_def messages_post_message stored_message_def
      messages_example_database next_rowid_def example_message_def)

lemma conversations_example_ledger: "conversations example_ledger = [\<lparr>conv_id = 42\<rparr>]"
  by (simp add: example_ledger_def conversations_post_message conversations_example_database)


lemma references_exist_example_ledger: "references_exist example_ledger"
  unfolding example_ledger_def
  by (intro references_exist_post_message references_exist_no_messages
      messages_example_database)

lemma list_messages_example_ledger:
  "list_messages 42 example_ledger =
     [\<lparr>item_id = Some 2, item_role = ''user'', item_content = ''hi'', item_created_at = Some 5\<rparr>,
      \<lparr>item_id = Some 3, item_role = ''user'', item_content = ''hi'', item_created_at = Some 5\<rparr>,
      \<lparr>item_id = Some 1, item_role = ''user'', item_content = ''hi'', item_created_at = Some 7\<rparr>]"
  by (simp add: list_messages_def query_messages_def messages_example_ledger
      message_item_of_def)

section \<open>The conversation ledger\<close>





text \<open>
  Claim C6. For every conversation id that has no messages, or that does not exist in a
  stored state, the listing requested with a valid session is the empty sequence, and
  the route does not fail.
\<close>

theorem C6_list_messages_empty:
  assumes "require_login sign cfg t session = Inr ()"
    and "(\<forall>m \<in> set (messages db). conversation_id m \<noteq> cid) \<or>
         (references_exist db \<and> cid \<notin> conv_id ` set (conversations db))"
  shows "get_messages sign cfg t session cid db = Inr []"
proof -
  from assms(2) have "\<forall>m \<in> set (messages db). conversation_id m \<noteq> cid"
    by (auto simp: references_exist_def)
  then have "filter (\<lambda>m. conversation_id m = cid) (messages db) = []"
    by (simp add: filter_empty_conv)
  then have "list_messages cid db = []"
    by (simp add: list_messages_def query_messages_def)
  with assms(1) show ?thesis by (simp add: get_messages_authenticated)
qed

theorem C6_list_messages_empty_witness:
  "require_login example_sign example_config 1000000 (Some (example_token ''admin'')) = Inr () \<and>
   references_exist example_ledger \<and> 99 \<notin> conv_id ` set (conversations example_ledger) \<and>
   get_messages example_sign example_config 1000000 (Some (example_token ''admin'')) 99
     example_ledger = Inr [] \<and>
   messages example_database = [] \<and>
   get_messages example_sign example_config 1000000 (Some (example_token ''admin'')) 42
     example_database = Inr []"
proof -
  let ?s = "Some (example_token ''admin'')"
  have auth: "require_login example_sign example_config 1000000 ?s = Inr ()"
    by (rule example_token_accepted)
  have absent: "99 \<notin> conv_id ` set (conversations example_ledger)"
    by (simp add: conversations_example_ledger)
  have none: "\<forall>m \<in> set (messages example_database). conversation_id m \<noteq> 42"
    by (simp add: messages_example_database)
  from references_exist_example_ledger absent
  have "get_messages example_sign example_config 1000000 ?s 99 example_ledger = Inr []"
    by (intro C6_list_messages_empty [OF auth]) simp
  moreover from none
  have "get_messages example_sign example_config 1000000 ?s 42 example_database = Inr []"
    by (intro C6_list_messages_empty [OF auth]) simp
  ultimately show ?thesis
    using auth references_exist_example_ledger absent messages_example_database by simp
qed

text \<open>
  Claim C7. For every conversation id that is not yet stored, two appends to it, one
  after the other, leave exactly one conversation record with that id.
\<close>

theorem C7_one_conversation_record:
  assumes "cid \<notin> conv_id ` set (conversations db)"
  shows "length (filter (\<lambda>c. conv_id c = cid)
           (conversations (snd (post_message t2 cid m2 (snd (post_message t1 cid m1 db)))))) = 1"
proof -
  let ?db1 = "snd (post_message t1 cid m1 db)"
  from assms have first: "conversations ?db1 = conversations db @ [\<lparr>conv_id = cid\<rparr>]"
    by (rule conversations_post_message_fresh)
  then have "cid \<in> conv_id ` set (conversations ?db1)"
    by simp
  then have second: "conversations (snd (post_message t2 cid m2 ?db1)) = conversations ?db1"
    by (rule conversations_post_message_known)
  from assms have "filter (\<lambda>c. conv_id c = cid) (conversations db) = []"
    by (auto simp: filter_empty_conv)
  then show ?thesis
    by (simp add: second first)
qed

theorem C7_one_conversation_record_witness:
  "42 \<notin> conv_id ` set (conversations example_database) \<and>
   length (filter (\<lambda>c. conv_id c = 42)
     (conversations (snd (post_message 5 42 example_message
        (snd (post_message 7 42 example_message example_database)))))) = 1"
proof -
  have fresh: "42 \<notin> conv_id ` set (conversations example_database)"
    by (simp add: conversations_example_database)
  from fresh C7_one_conversation_record [OF fresh, of 5 example_message 7 example_message]
  show ?thesis by simp
qed

text \<open>
  Claim C8, which the module does not keep. The column \<^verbatim>\<open>role\<close> is declared with
  length 20, but neither the request schema nor the insert compares a role with that
  length: a request with a role of 21 characters is accepted, and the stored message
  carries all 21.
\<close>

theorem C8_role_longer_than_declared:
  "map (\<lambda>m. (length (role m), role_length))
     (messages (snd (post_message 0 1
        \<lparr>mc_role = ''aaaaaaaaaaaaaaaaaaaaa'', mc_content = ''hi''\<rparr> empty_database)))
   = [(21, 20)]"
  by (simp add: messages_post_message stored_message_def empty_database_def role_length_def)

text \<open>
  Claim C9. For every pair of distinct conversation ids, an append to the one leaves
  the stored messages and the listing of the other as they were.
\<close>

theorem C9_other_conversations_unchanged:
  assumes "cid \<noteq> cid'"
  shows "filter (\<lambda>m. conversation_id m = cid') (messages (snd (post_message now cid message db)))
           = filter (\<lambda>m. conversation_id m = cid') (messages db) \<and>
         get_messages sign cfg t session cid' (snd (post_message now cid message db))
           = get_messages sign cfg t session cid' db"
proof
  from assms show "filter (\<lambda>m. conversation_id m = cid')
      (messages (snd (post_message now cid message db)))
    = filter (\<lambda>m. conversation_id m = cid') (messages db)"
    by (simp add: messages_post_message stored_message_def)
next
  from assms have "list_messages cid' (snd (post_message now cid message db))
      = list_messages cid' db"
    by (rule list_messages_post_other)
  then show "get_messages sign cfg t session cid' (snd (post_message now cid message db))
      = get_messages sign cfg t session cid' db"
    by (simp only: get_messages_def)
qed

theorem C9_other_conversations_unchanged_witness:
  "(7::int) \<noteq> 42 \<and>
   get_messages example_sign example_config 1000000 (Some (example_token ''admin'')) 42
       (snd (post_message 9 7 example_message example_ledger)) =
     Inr [\<lparr>item_id = Some 2, item_role = ''user'', item_content = ''hi'',
            item_created_at = Some 5\<rparr>,
          \<lparr>item_id = Some 3, item_role = ''user'', item_content = ''hi'',
            item_created_at = Some 5\<rparr>,
          \<lparr>item_id = Some 1, item_role = ''user'', item_content = ''hi'',
            item_created_at = Some 7\<rparr>]"
proof -
  let ?s = "Some (example_token ''admin'')"
  have distinct: "(7::int) \<noteq> 42" by simp
  have "get_messages example_sign example_config 1000000 ?s 42 example_ledger =
      Inr (list_messages 42 example_ledger)"
    by (intro get_messages_authenticated example_token_accepted)
  with C9_other_conversations_unchanged [OF distinct, of 9 example_message example_ledger
      example_sign example_config 1000000 ?s]
  show ?thesis by (simp add: list_messages_example_ledger)
qed

section \<open>Login and the session guard\<close>

lemma timegm_add_hours: "timegm (now + timedelta_hours h) = timegm now + 3600 * h"
proof -
  have "now + timedelta_hours h = now + (3600 * h) * 1000000"
    by (simp add: timedelta_hours_def)
  then show ?thesis
    by (simp only: timegm_def div_mult_self1 [of 1000000 now "3600 * h"])
qed

lemma find_unique_username:
  assumes "distinct (map username us)" and "u \<in> set us"
  shows "find (\<lambda>v. username v = username u) us = Some u"
  using assms
proof (induction us)
  case Nil
  then show ?case by simp
next
  case (Cons a us)
  then show ?case by (cases "a = u") (auto simp: image_iff)
qed

lemma jwt_decode_encode:
  assumes "timegm t \<le> timegm (exp c)"
  shows "jwt_decode sign t (jwt_encode sign c key alg) key [alg] =
           Inr \<lparr>payload_sub = sub c, payload_exp = timegm (exp c)\<rparr>"
  using assms by (simp add: jwt_decode_def jwt_encode_def Let_def)

lemma load_config_hours:
  "load_config env = Inr cfg \<Longrightarrow>
   ACCESS_TOKEN_EXPIRE_HOURS cfg =
     (case env_ACCESS_TOKEN_EXPIRE_HOURS env of None \<Rightarrow> 1 | Some h \<Rightarrow> h)"
  by (auto simp: load_config_def split: if_splits)

text \<open>
  Claim C2. For every stored user whose password hash matches the submitted password,
  the login route answers \<^verbatim>\<open>{"status": "ok"}\<close> and sets a session cookie. Verified
  before its expiry, the cookie's token yields the username as subject and, as expiry,
  the second of issue plus the configured number of hours, which is 1 where the
  environment sets none. Usernames are unique, as the table declares.
\<close>

theorem C2_login_issues_session:
  assumes cfg: "load_config env = Inr cfg"
    and uniq: "distinct (map username (users db))"
    and user: "user \<in> set (users db)"
    and name: "lr_username data = username user"
    and pw: "verify (lr_password data) (password_hash user)"
    and live: "timegm t \<le> timegm now + 3600 * ACCESS_TOKEN_EXPIRE_HOURS cfg"
  shows "\<exists>tok. login sign verify cfg now data response db =
             (Inr [(''status'', ''ok'')],
              response\<lparr>cookies := cookies response @
                [\<lparr>cookie_key = ''session'', cookie_value = tok, cookie_httponly = True,
                  cookie_samesite = COOKIE_SAMESITE cfg, cookie_secure = COOKIE_SECURE cfg,
                  cookie_path = ''/''\<rparr>]\<rparr>) \<and>
           jwt_decode sign t tok (SECRET_KEY cfg) [ALGORITHM cfg] =
             Inr \<lparr>payload_sub = username user,
                  payload_exp = timegm now + 3600 *
                    (case env_ACCESS_TOKEN_EXPIRE_HOURS env of None \<Rightarrow> 1 | Some h \<Rightarrow> h)\<rparr> \<and>
           require_login sign cfg t (Some tok) = Inr ()"
proof -
  let ?c = "\<lparr>sub = username user,
             exp = now + timedelta_hours (ACCESS_TOKEN_EXPIRE_HOURS cfg)\<rparr>"
  let ?tok = "jwt_encode sign ?c (SECRET_KEY cfg) (ALGORITHM cfg)"
  from uniq user name
  have found: "find (\<lambda>u. username u = lr_username data) (users db) = Some user"
    by (simp add: find_unique_username)
  with pw have res: "login sign verify cfg now data response db =
      (Inr [(''status'', ''ok'')],
       response\<lparr>cookies := cookies response @
         [\<lparr>cookie_key = ''session'', cookie_value = ?tok, cookie_httponly = True,
           cookie_samesite = COOKIE_SAMESITE cfg, cookie_secure = COOKIE_SECURE cfg,
           cookie_path = ''/''\<rparr>]\<rparr>)"
    by (simp add: login_def set_cookie_def Let_def)
  from live have "timegm t \<le> timegm (exp ?c)"
    by (simp add: timegm_add_hours)
  then have "jwt_decode sign t ?tok (SECRET_KEY cfg) [ALGORITHM cfg] =
      Inr \<lparr>payload_sub = sub ?c, payload_exp = timegm (exp ?c)\<rparr>"
    by (rule jwt_decode_encode)
  then have dec: "jwt_decode sign t ?tok (SECRET_KEY cfg) [ALGORITHM cfg] =
      Inr \<lparr>payload_sub = username user,
           payload_exp = timegm now + 3600 * ACCESS_TOKEN_EXPIRE_HOURS cfg\<rparr>"
    by (simp add: timegm_add_hours)
  have "?tok \<noteq> Opaque []"
    by (simp add: jwt_encode_def Let_def)
  with dec have guard: "require_login sign cfg t (Some ?tok) = Inr ()"
    by (simp add: require_login_def)
  from res dec guard load_config_hours [OF cfg] show ?thesis
    by (intro exI [of _ ?tok]) simp
qed

theorem C2_login_issues_session_witness:
  "load_config example_env = Inr example_config \<and>
   login example_sign example_verify example_config 0
       \<lparr>lr_username = ''admin'', lr_password = ''secret''\<rparr> \<lparr>cookies = []\<rparr> example_database =
     (Inr [(''status'', ''ok'')],
      \<lparr>cookies = [\<lparr>cookie_key = ''session'', cookie_value = example_token ''admin'',
          cookie_httponly = True, cookie_samesite = ''lax'', cookie_secure = True,
          cookie_path = ''/''\<rparr>]\<rparr>) \<and>
   jwt_decode example_sign 1000000 (example_token ''admin'') ''k'' [''HS256''] =
     Inr \<lparr>payload_sub = ''admin'', payload_exp = 3600\<rparr>"
proof -
  let ?u = "\<lparr>user_id = 1, username = ''admin'', password_hash = ''hash:secret''\<rparr>"
  let ?d = "\<lparr>lr_username = ''admin'', lr_password = ''secret''\<rparr>"
  have uniq: "distinct (map username (users example_database))"
    by (simp add: users_example_database)
  have user: "?u \<in> set (users example_database)"
    by (simp add: users_example_database)
  have name: "lr_username ?d = username ?u" by simp
  have pw: "example_verify (lr_password ?d) (password_hash ?u)"
    by (simp add: example_verify_def example_hash_def)
  have live: "timegm 1000000 \<le> timegm 0 + 3600 * ACCESS_TOKEN_EXPIRE_HOURS example_config"
    by (simp add: timegm_def example_config_def)
  have run: "login example_sign example_verify example_config 0 ?d \<lparr>cookies = []\<rparr>
      example_database =
     (Inr [(''status'', ''ok'')],
      \<lparr>cookies = [\<lparr>cookie_key = ''session'', cookie_value = example_token ''admin'',
          cookie_httponly = True, cookie_samesite = ''lax'', cookie_secure = True,
          cookie_path = ''/''\<rparr>]\<rparr>)"
    by (simp add: login_def users_example_database example_verify_def example_hash_def
        example_token_def example_config_def set_cookie_def timedelta_hours_def)
  from C2_login_issues_session [where verify = example_verify and sign = example_sign
      and response = "\<lparr>cookies = []\<rparr>", OF load_example_env uniq user name pw live]
  obtain tok where
    l: "login example_sign example_verify example_config 0 ?d \<lparr>cookies = []\<rparr> example_database =
        (Inr [(''status'', ''ok'')],
         \<lparr>cookies = [] @ [\<lparr>cookie_key = ''session'', cookie_value = tok, cookie_httponly = True,
            cookie_samesite = COOKIE_SAMESITE example_config,
            cookie_secure = COOKIE_SECURE example_config, cookie_path = ''/''\<rparr>]\<rparr>)"
    and d: "jwt_decode example_sign 1000000 tok (SECRET_KEY example_config)
        [ALGORITHM example_config] =
        Inr \<lparr>payload_sub = username ?u,
             payload_exp = timegm 0 + 3600 *
               (case env_ACCESS_TOKEN_EXPIRE_HOURS example_env of None \<Rightarrow> 1 | Some h \<Rightarrow> h)\<rparr>"
    by auto
  from l run have "tok = example_token ''admin''" by simp
  with d have "jwt_decode example_sign 1000000 (example_token ''admin'') ''k'' [''HS256''] =
      Inr \<lparr>payload_sub = ''admin'', payload_exp = 3600\<rparr>"
    by (simp add: example_config_def example_env_def timegm_def)
  with run load_example_env show ?thesis by simp
qed

text \<open>
  Claim C3. For every login request whose username is not stored, or whose password does
  not match the hash stored for the username, the login route fails with status 401 and
  leaves the response without a new cookie. The result is the same value in both cases.
\<close>

theorem C3_login_rejects:
  assumes "lr_username data \<notin> username ` set (users db) \<or>
           (\<exists>u. find (\<lambda>u. username u = lr_username data) (users db) = Some u \<and>
                \<not> verify (lr_password data) (password_hash u))"
  shows "login sign verify cfg now data response db = (Inl (HTTPException 401), response)"
  using assms
proof
  assume "lr_username data \<notin> username ` set (users db)"
  then have "find (\<lambda>u. username u = lr_username data) (users db) = None"
    by (force simp: find_None_iff)
  then show ?thesis by (simp add: login_def)
next
  assume "\<exists>u. find (\<lambda>u. username u = lr_username data) (users db) = Some u \<and>
             \<not> verify (lr_password data) (password_hash u)"
  then show ?thesis by (auto simp: login_def)
qed

theorem C3_login_rejects_witness:
  "''eve'' \<notin> username ` set (users example_database) \<and>
   login example_sign example_verify example_config 0
       \<lparr>lr_username = ''eve'', lr_password = ''secret''\<rparr> \<lparr>cookies = []\<rparr> example_database =
     (Inl (HTTPException 401), \<lparr>cookies = []\<rparr>) \<and>
   \<not> example_verify ''guess'' ''hash:secret'' \<and>
   login example_sign example_verify example_config 0
       \<lparr>lr_username = ''admin'', lr_password = ''guess''\<rparr> \<lparr>cookies = []\<rparr> example_database =
     (Inl (HTTPException 401), \<lparr>cookies = []\<rparr>)"
proof -
  let ?eve = "\<lparr>lr_username = ''eve'', lr_password = ''secret''\<rparr>"
  let ?guess = "\<lparr>lr_username = ''admin'', lr_password = ''guess''\<rparr>"
  have unknown: "''eve'' \<notin> username ` set (users example_database)"
    by (simp add: users_example_database)
  have wrong: "\<not> example_verify ''guess'' ''hash:secret''"
    by (simp add: example_verify_def example_hash_def)
  from unknown
  have "login example_sign example_verify example_config 0 ?eve \<lparr>cookies = []\<rparr>
      example_database = (Inl (HTTPException 401), \<lparr>cookies = []\<rparr>)"
    by (intro C3_login_rejects) simp
  moreover from wrong
  have "login example_sign example_verify example_config 0 ?guess \<lparr>cookies = []\<rparr>
      example_database = (Inl (HTTPException 401), \<lparr>cookies = []\<rparr>)"
    by (intro C3_login_rejects) (simp add: users_example_database)
  ultimately show ?thesis using unknown wrong by simp
qed

text \<open>
  Claim C4. The guard fails when no session cookie is supplied, when the cookie is not a
  token, when the token's signature is not the one the secret gives, and when the
  token's expiry has passed. In all these cases the guard, and with it the protected
  route, answers the same status 401, and the body of the route contributes nothing.
\<close>

theorem C4_guard_rejects:
  assumes "session = None \<or> (\<exists>s. session = Some (Opaque s)) \<or>
           (\<exists>j. session = Some (Compact j) \<and>
                (jws_signature j \<noteq> sign (SECRET_KEY cfg) (jws_alg j) (jws_payload j) \<or>
                 payload_exp (jws_payload j) < timegm now))"
  shows "require_login sign cfg now session = Inl (HTTPException 401) \<and>
         get_messages sign cfg now session cid db = Inl (HTTPException 401)"
proof -
  from assms have "require_login sign cfg now session = Inl (HTTPException 401)"
    by (auto simp: require_login_def jwt_decode_def)
  then show ?thesis by (simp add: get_messages_def)
qed

theorem C4_guard_rejects_witness:
  "get_messages example_sign example_config 1000000 None 42 example_ledger =
     Inl (HTTPException 401) \<and>
   get_messages example_sign example_config 1000000
       (Some (Compact \<lparr>jws_alg = ''HS256'',
          jws_payload = \<lparr>payload_sub = ''admin'', payload_exp = 3600\<rparr>,
          jws_signature = ''forged''\<rparr>)) 42 example_ledger =
     Inl (HTTPException 401) \<and>
   payload_exp \<lparr>payload_sub = ''admin'', payload_exp = 3600\<rparr> < timegm 3601000000 \<and>
   get_messages example_sign example_config 3601000000 (Some (example_token ''admin'')) 42
       example_ledger =
     Inl (HTTPException 401)"
proof -
  let ?forged = "\<lparr>jws_alg = ''HS256'',
      jws_payload = \<lparr>payload_sub = ''admin'', payload_exp = 3600\<rparr>,
      jws_signature = ''forged''\<rparr>"
  have late: "payload_exp \<lparr>payload_sub = ''admin'', payload_exp = 3600\<rparr> < timegm 3601000000"
    by (simp add: timegm_def)
  have "get_messages example_sign example_config 1000000 None 42 example_ledger =
      Inl (HTTPException 401)"
    using C4_guard_rejects [of None example_sign example_config 1000000 42 example_ledger]
    by simp
  moreover
  have "get_messages example_sign example_config 1000000 (Some (Compact ?forged)) 42
      example_ledger = Inl (HTTPException 401)"
    using C4_guard_rejects [of "Some (Compact ?forged)" example_sign example_config 1000000
        42 example_ledger]
    by (simp add: example_sign_def example_config_def)
  moreover
  have "get_messages example_sign example_config 3601000000 (Some (example_token ''admin'')) 42
      example_ledger = Inl (HTTPException 401)"
    using late C4_guard_rejects [of "Some (example_token ''admin'')" example_sign
        example_config 3601000000 42 example_ledger]
    by (simp add: example_token_eq)
  ultimately show ?thesis using late by simp
qed

text \<open>
  Claim C10. The guard accepts every token whose algorithm is the configured one, whose
  signature is the one the secret gives and whose expiry has not passed, whatever its
  subject. The guard is not given the database, so for every database, also one without
  a user of that name, the protected route runs its body.
\<close>

theorem C10_guard_ignores_subject:
  assumes "jws_alg j = ALGORITHM cfg"
    and "jws_signature j = sign (SECRET_KEY cfg) (jws_alg j) (jws_payload j)"
    and "timegm now \<le> payload_exp (jws_payload j)"
  shows "require_login sign cfg now (Some (Compact j)) = Inr () \<and>
         get_messages sign cfg now (Some (Compact j)) cid db = Inr (list_messages cid db)"
proof -
  from assms have "require_login sign cfg now (Some (Compact j)) = Inr ()"
    by (simp add: require_login_def jwt_decode_def)
  then show ?thesis by (simp add: get_messages_def)
qed

theorem C10_guard_ignores_subject_witness:
  "''nobody'' \<notin> username ` set (users example_ledger) \<and>
   require_login example_sign example_config 1000000
       (Some (Compact \<lparr>jws_alg = ''HS256'',
          jws_payload = \<lparr>payload_sub = ''nobody'', payload_exp = 3600\<rparr>,
          jws_signature = ''kHS256nobody''\<rparr>)) = Inr () \<and>
   get_messages example_sign example_config 1000000
       (Some (Compact \<lparr>jws_alg = ''HS256'',
          jws_payload = \<lparr>payload_sub = ''nobody'', payload_exp = 3600\<rparr>,
          jws_signature = ''kHS256nobody''\<rparr>)) 42 example_ledger =
     Inr (list_messages 42 example_ledger)"
proof -
  let ?j = "\<lparr>jws_alg = ''HS256'',
      jws_payload = \<lparr>payload_sub = ''nobody'', payload_exp = 3600\<rparr>,
      jws_signature = ''kHS256nobody''\<rparr>"
  have stranger: "''nobody'' \<notin> username ` set (users example_ledger)"
    by (simp add: example_ledger_def users_post_message users_example_database)
  have alg: "jws_alg ?j = ALGORITHM example_config"
    by (simp add: example_config_def)
  have sig: "jws_signature ?j =
      example_sign (SECRET_KEY example_config) (jws_alg ?j) (jws_payload ?j)"
    by (simp add: example_config_def example_sign_def)
  have live: "timegm 1000000 \<le> payload_exp (jws_payload ?j)"
    by (simp add: timegm_def)
  from stranger C10_guard_ignores_subject [where sign = example_sign and cid = 42
      and db = example_ledger, OF alg sig live]
  show ?thesis by simp
qed

end
